theory Spec2Isabelle
  imports Complex_Main
begin

section \<open>The sentiment demo of the notebook: data and exceptions\<close>

text \<open>
  The last code cell of \<^verbatim>\<open>keras-with-openvino-backend.ipynb\<close> defines two functions,
  \<^verbatim>\<open>get_sentiment\<close> and \<^verbatim>\<open>display_results\<close>, and a driver loop. Both functions
  are embedded here. Every exception the Python can raise is a value of \<open>error\<close>;
  a function that may raise returns \<open>error + 'a\<close>, with \<open>Inl\<close> for the exception.

  Strings are \<open>char list\<close>; \<open>length\<close> stands for Python's \<^verbatim>\<open>len\<close>, one \<open>char\<close>
  per character of the Python string.
\<close>

datatype error =
    ValueError
  | IndexError
  | KeyError string
  | FrameworkError string

text \<open>
  A result record is a Python dict from field names to strings,
  \<^verbatim>\<open>{"Sentence": sentence, "Sentiment": sentiment}\<close>.
\<close>

type_synonym dict = "string \<rightharpoonup> string"

text \<open>\<^verbatim>\<open>result[key]\<close>: a missing key raises \<^verbatim>\<open>KeyError(key)\<close>.\<close>

definition getitem :: "dict \<Rightarrow> string \<Rightarrow> error + string" where
  "getitem d k = (case d k of None \<Rightarrow> Inl (KeyError k) | Some v \<Rightarrow> Inr v)"

section \<open>display\_results\<close>

text \<open>
  \<^verbatim>\<open>
  def display_results(results):
      max_sentence_length = max(len(result["Sentence"]) for result in results)
      max_sentiment_length = max(len(result["Sentiment"]) for result in results)

      print(f"{'Sentence':<{max_sentence_length}}  {'Sentiment':<{max_sentiment_length}}")
      print("-" * (max_sentence_length + max_sentiment_length + 4))

      for result in results:
          sentence = result["Sentence"]
          sentiment = result["Sentiment"]
          print(f"{sentence:<{max_sentence_length}}  {sentiment:<{max_sentiment_length}}")
  \<close>
\<close>

text \<open>
  The generator \<^verbatim>\<open>len(result[key]) for result in results\<close>, drained from left to right:
  the first record without the key ends it with \<^verbatim>\<open>KeyError\<close>.
\<close>

fun field_lengths :: "string \<Rightarrow> dict list \<Rightarrow> error + nat list" where
  "field_lengths k [] = Inr []"
| "field_lengths k (r # rs) =
     (case getitem r k of
        Inl e \<Rightarrow> Inl e
      | Inr v \<Rightarrow>
         (case field_lengths k rs of
            Inl e \<Rightarrow> Inl e
          | Inr ls \<Rightarrow> Inr (length v # ls)))"

text \<open>
  Python's \<^verbatim>\<open>max\<close> over an iterable: \<^verbatim>\<open>ValueError\<close> when it is empty, otherwise
  the running maximum, replaced only by a strictly greater item.
\<close>

fun max_loop :: "nat \<Rightarrow> nat list \<Rightarrow> nat" where
  "max_loop m [] = m"
| "max_loop m (x # xs) = max_loop (if m < x then x else m) xs"

definition max_py :: "nat list \<Rightarrow> error + nat" where
  "max_py xs = (case xs of [] \<Rightarrow> Inl ValueError | x # rest \<Rightarrow> Inr (max_loop x rest))"

definition max_field_length :: "string \<Rightarrow> dict list \<Rightarrow> error + nat" where
  "max_field_length k results =
     (case field_lengths k results of Inl e \<Rightarrow> Inl e | Inr ls \<Rightarrow> max_py ls)"

text \<open>
  The format specification \<^verbatim>\<open>:<w\<close> on a string: left-justified, filled with spaces up to
  \<open>w\<close> characters; a string of \<open>w\<close> characters or more is returned as it is. The
  width is written in decimal into the specification; for \<open>w = 0\<close> that is \<^verbatim>\<open><0\<close>,
  which gives no width and so pads nothing either.
\<close>

definition ljust :: "string \<Rightarrow> nat \<Rightarrow> string" where
  "ljust s w = (if w \<le> length s then s else s @ replicate (w - length s) (CHR '' ''))"

text \<open>The three f-strings and the rule line of the function.\<close>

definition format_row :: "string \<Rightarrow> string \<Rightarrow> nat \<Rightarrow> nat \<Rightarrow> string" where
  "format_row a b w1 w2 = ljust a w1 @ ''  '' @ ljust b w2"

definition header_line :: "nat \<Rightarrow> nat \<Rightarrow> string" where
  "header_line w1 w2 = format_row ''Sentence'' ''Sentiment'' w1 w2"

definition separator_line :: "nat \<Rightarrow> nat \<Rightarrow> string" where
  "separator_line w1 w2 = replicate (w1 + w2 + 4) (CHR ''-'')"

text \<open>
  The console is the list of lines printed so far; \<^verbatim>\<open>print\<close> appends one line.
\<close>

type_synonym console = "string list"

definition print_line :: "string \<Rightarrow> console \<Rightarrow> console" where
  "print_line l out = out @ [l]"

text \<open>The \<^verbatim>\<open>for result in results\<close> loop. An exception leaves the console as it is then.\<close>

fun print_rows :: "nat \<Rightarrow> nat \<Rightarrow> dict list \<Rightarrow> console \<Rightarrow> (error + unit) \<times> console" where
  "print_rows w1 w2 [] out = (Inr (), out)"
| "print_rows w1 w2 (r # rs) out =
     (case getitem r ''Sentence'' of
        Inl e \<Rightarrow> (Inl e, out)
      | Inr sentence \<Rightarrow>
         (case getitem r ''Sentiment'' of
            Inl e \<Rightarrow> (Inl e, out)
          | Inr sentiment \<Rightarrow>
             print_rows w1 w2 rs (print_line (format_row sentence sentiment w1 w2) out)))"

definition display_results :: "dict list \<Rightarrow> console \<Rightarrow> (error + unit) \<times> console" where
  "display_results results out =
     (case max_field_length ''Sentence'' results of
        Inl e \<Rightarrow> (Inl e, out)
      | Inr max_sentence_length \<Rightarrow>
         (case max_field_length ''Sentiment'' results of
            Inl e \<Rightarrow> (Inl e, out)
          | Inr max_sentiment_length \<Rightarrow>
             print_rows max_sentence_length max_sentiment_length results
               (print_line (separator_line max_sentence_length max_sentiment_length)
                 (print_line (header_line max_sentence_length max_sentiment_length) out))))"

section \<open>get\_sentiment\<close>

text \<open>
  \<^verbatim>\<open>
  def get_sentiment(text):
      predictions = bert.predict([text])
      probabilities = tf.nn.softmax(predictions, axis=1).numpy()
      sentiment = np.argmax(probabilities, axis=1)[0]
      sentiment_label = "positive" if sentiment == 1 else "negative"

      return sentiment_label
  \<close>
  The classifier \<^verbatim>\<open>bert\<close> is a global of the notebook; its \<^verbatim>\<open>predict\<close> is a parameter
  here: it takes the list of texts and returns the array of logits, one row per text, or
  raises. The library calls \<^verbatim>\<open>tf.nn.softmax\<close> and \<^verbatim>\<open>np.argmax\<close> are written out over
  the reals: the exponentials divided by their sum along each row, and the first index of
  a greatest entry of each row. A two-dimensional array is the list of its rows; the empty
  list is an array without rows, on which \<^verbatim>\<open>argmax\<close> along axis 1 returns no index.
  On an array of two dimensions \<^verbatim>\<open>softmax\<close> along axis 1 does not raise.
\<close>

definition softmax_row :: "real list \<Rightarrow> real list" where
  "softmax_row v = map (\<lambda>x. exp x / sum_list (map exp v)) v"

definition softmax :: "real list list \<Rightarrow> real list list" where
  "softmax predictions = map softmax_row predictions"

text \<open>
  \<^verbatim>\<open>np.argmax\<close> on one row: the scan keeps the best entry and its index, and moves only
  to a strictly greater entry, so the first of several equal greatest entries wins. An
  empty row raises \<^verbatim>\<open>ValueError\<close>.
\<close>

fun argmax_loop :: "real \<Rightarrow> nat \<Rightarrow> nat \<Rightarrow> real list \<Rightarrow> nat" where
  "argmax_loop best besti i [] = besti"
| "argmax_loop best besti i (x # xs) =
     (if best < x then argmax_loop x i (Suc i) xs else argmax_loop best besti (Suc i) xs)"

definition argmax_row :: "real list \<Rightarrow> error + nat" where
  "argmax_row v = (case v of [] \<Rightarrow> Inl ValueError | x # xs \<Rightarrow> Inr (argmax_loop x 0 1 xs))"

fun argmax_axis1 :: "real list list \<Rightarrow> error + nat list" where
  "argmax_axis1 [] = Inr []"
| "argmax_axis1 (r # rs) =
     (case argmax_row r of
        Inl e \<Rightarrow> Inl e
      | Inr i \<Rightarrow>
         (case argmax_axis1 rs of
            Inl e \<Rightarrow> Inl e
          | Inr js \<Rightarrow> Inr (i # js)))"

text \<open>The subscript \<^verbatim>\<open>[0]\<close>: \<^verbatim>\<open>IndexError\<close> on an array without rows.\<close>

definition index0 :: "nat list \<Rightarrow> error + nat" where
  "index0 js = (case js of [] \<Rightarrow> Inl IndexError | j # _ \<Rightarrow> Inr j)"

definition sentiment_label :: "nat \<Rightarrow> string" where
  "sentiment_label sentiment = (if sentiment = 1 then ''positive'' else ''negative'')"

definition get_sentiment :: "(string list \<Rightarrow> error + real list list) \<Rightarrow> string \<Rightarrow> error + string" where
  "get_sentiment predict text =
     (case predict [text] of
        Inl e \<Rightarrow> Inl e
      | Inr predictions \<Rightarrow>
         (case argmax_axis1 (softmax predictions) of
            Inl e \<Rightarrow> Inl e
          | Inr js \<Rightarrow>
             (case index0 js of
                Inl e \<Rightarrow> Inl e
              | Inr sentiment \<Rightarrow> Inr (sentiment_label sentiment))))"

text \<open>
  The dict literal of the driver loop,
  \<^verbatim>\<open>results.append({"Sentence": sentence, "Sentiment": sentiment})\<close>.
\<close>

definition mk_result :: "string \<Rightarrow> string \<Rightarrow> dict" where
  "mk_result sentence sentiment = [''Sentence'' \<mapsto> sentence, ''Sentiment'' \<mapsto> sentiment]"

text \<open>
  The list \<^verbatim>\<open>results\<close> of the run recorded in the notebook: the four sentences of
  the cell with the labels shown in its output.
\<close>

definition notebook_results :: "dict list" where
  "notebook_results =
     [mk_result ''the movie was a complete waste of time.'' ''negative'',
      mk_result ''the plot was predictable and boring.'' ''negative'',
      mk_result ''i absolutely loved this movie, it was fantastic!'' ''positive'',
      mk_result ''an excellent movie that i would highly recommend.'' ''positive'']"

text \<open>
  The hypothesis of the table properties: the record has both fields. Their values are
  strings by the type of \<open>dict\<close>.
\<close>

definition has_fields :: "dict \<Rightarrow> bool" where
  "has_fields r = (r ''Sentence'' \<noteq> None \<and> r ''Sentiment'' \<noteq> None)"

text \<open>
  The specification's column width, to compare with what \<open>max_field_length\<close> computes:
  the greatest length of the field \<open>k\<close> among the records.
\<close>

definition spec_max_length :: "string \<Rightarrow> dict list \<Rightarrow> nat" where
  "spec_max_length k results = Max ((\<lambda>r. length (the (r k))) ` set results)"

section \<open>The table: widths, header, rule and rows\<close>

lemma getitem_present: "r k \<noteq> None \<Longrightarrow> getitem r k = Inr (the (r k))"
  by (auto simp: getitem_def)

lemma field_lengths_present:
  "\<forall>r\<in>set rs. r k \<noteq> None \<Longrightarrow> field_lengths k rs = Inr (map (\<lambda>r. length (the (r k))) rs)"
  by (induction rs) (simp_all add: getitem_present)

lemma max_loop_fold: "max_loop m xs = fold max xs m"
proof (induction xs arbitrary: m)
  case Nil
  show ?case by simp
next
  case (Cons x xs)
  have "(if m < x then x else m) = max x m" by (simp add: max_def)
  with Cons.IH [of "max x m"] show ?case by simp
qed

lemma max_loop_Max: "max_loop m xs = Max (set (m # xs))"
  by (simp only: max_loop_fold Max.set_eq_fold)

lemma max_py_Max: "xs \<noteq> [] \<Longrightarrow> max_py xs = Inr (Max (set xs))"
  by (cases xs) (simp_all add: max_py_def max_loop_Max del: Max_insert set_simps)

lemma max_field_length_present:
  assumes "rs \<noteq> []" and "\<forall>r\<in>set rs. r k \<noteq> None"
  shows "max_field_length k rs = Inr (Max ((\<lambda>r. length (the (r k))) ` set rs))"
  using assms by (simp add: max_field_length_def field_lengths_present max_py_Max)

lemma print_rows_present:
  "\<forall>r\<in>set rs. r ''Sentence'' \<noteq> None \<and> r ''Sentiment'' \<noteq> None \<Longrightarrow>
   print_rows w1 w2 rs out =
     (Inr (), out @ map (\<lambda>r. format_row (the (r ''Sentence'')) (the (r ''Sentiment'')) w1 w2) rs)"
  by (induction rs arbitrary: out) (simp_all add: getitem_present print_line_def)

lemma display_results_present:
  assumes "rs \<noteq> []" and "\<forall>r\<in>set rs. r ''Sentence'' \<noteq> None \<and> r ''Sentiment'' \<noteq> None"
  shows "display_results rs out =
     (Inr (), out @
        header_line (Max ((\<lambda>r. length (the (r ''Sentence''))) ` set rs))
                    (Max ((\<lambda>r. length (the (r ''Sentiment''))) ` set rs)) #
        separator_line (Max ((\<lambda>r. length (the (r ''Sentence''))) ` set rs))
                    (Max ((\<lambda>r. length (the (r ''Sentiment''))) ` set rs)) #
        map (\<lambda>r. format_row (the (r ''Sentence'')) (the (r ''Sentiment''))
                   (Max ((\<lambda>r. length (the (r ''Sentence''))) ` set rs))
                   (Max ((\<lambda>r. length (the (r ''Sentiment''))) ` set rs))) rs)"
proof -
  from assms have s: "\<forall>r\<in>set rs. r ''Sentence'' \<noteq> None" and t: "\<forall>r\<in>set rs. r ''Sentiment'' \<noteq> None"
    by blast+
  show ?thesis
    by (simp add: display_results_def max_field_length_present [OF assms(1) s]
        max_field_length_present [OF assms(1) t] print_rows_present [OF assms(2)] print_line_def)
qed

lemma ljust_length: "length (ljust s w) = max (length s) w"
  by (simp add: ljust_def)

lemma ljust_fits: "length s \<le> w \<Longrightarrow> ljust s w = s @ replicate (w - length s) (CHR '' '')"
  by (simp add: ljust_def)

lemma ljust_pad: "\<exists>n. ljust s w = s @ replicate n (CHR '' '')"
proof (cases "w \<le> length s")
  case True
  then have "ljust s w = s @ replicate 0 (CHR '' '')" by (simp add: ljust_def)
  then show ?thesis by blast
next
  case False
  then show ?thesis by (auto simp: ljust_def)
qed

lemma print_rows_append:
  "print_rows w1 w2 rs out = (fst (print_rows w1 w2 rs []), out @ snd (print_rows w1 w2 rs []))"
proof (induction rs arbitrary: out)
  case Nil
  show ?case by simp
next
  case (Cons r rs)
  show ?case
  proof (cases "getitem r ''Sentence''")
    case (Inl e)
    then show ?thesis by simp
  next
    case s: (Inr sentence)
    show ?thesis
    proof (cases "getitem r ''Sentiment''")
      case (Inl e)
      with s show ?thesis by simp
    next
      case t: (Inr sentiment)
      let ?l = "format_row sentence sentiment w1 w2"
      have a: "print_rows w1 w2 rs (out @ [?l]) =
          (fst (print_rows w1 w2 rs []), (out @ [?l]) @ snd (print_rows w1 w2 rs []))"
        by (rule Cons.IH)
      have b: "print_rows w1 w2 rs [?l] =
          (fst (print_rows w1 w2 rs []), [?l] @ snd (print_rows w1 w2 rs []))"
        by (rule Cons.IH)
      from s t a b show ?thesis by (simp add: print_line_def)
    qed
  qed
qed

lemma display_results_output:
  assumes "results \<noteq> []" and "list_all has_fields results"
  shows "display_results results out =
     (Inr (), out @
        header_line (spec_max_length ''Sentence'' results) (spec_max_length ''Sentiment'' results) #
        separator_line (spec_max_length ''Sentence'' results) (spec_max_length ''Sentiment'' results) #
        map (\<lambda>r. format_row (the (r ''Sentence'')) (the (r ''Sentiment''))
                   (spec_max_length ''Sentence'' results) (spec_max_length ''Sentiment'' results))
          results)"
proof -
  from assms(2) have "\<forall>r\<in>set results. r ''Sentence'' \<noteq> None \<and> r ''Sentiment'' \<noteq> None"
    by (simp add: list_all_iff has_fields_def)
  from display_results_present [OF assms(1) this] show ?thesis
    by (simp only: spec_max_length_def)
qed

lemma spec_max_length_ge:
  "r \<in> set results \<Longrightarrow> length (the (r k)) \<le> spec_max_length k results"
  by (simp add: spec_max_length_def)

lemma mk_result_fields [simp]:
  "mk_result s t ''Sentence'' = Some s" "mk_result s t ''Sentiment'' = Some t"
  by (simp_all add: mk_result_def)

lemma has_fields_mk_result [simp]: "has_fields (mk_result s t)"
  by (simp add: has_fields_def)

lemma spec_max_length_single [simp]: "spec_max_length k [r] = length (the (r k))"
  by (simp add: spec_max_length_def)

text \<open>
  The run on the single record of the specification's example, evaluated through the
  definitions.
\<close>

lemma display_results_x_positive:
  "display_results [mk_result ''x'' ''positive''] out =
     (Inr (), out @ [''Sentence  Sentiment'', ''-------------'', ''x  positive''])"
  by (simp add: display_results_def max_field_length_def getitem_def mk_result_def max_py_def
      header_line_def separator_line_def format_row_def ljust_def print_line_def eval_nat_numeral)

text \<open>
  The embedding on the recorded run: the computed widths are 49 and 8, and the six lines
  are those of the cell's output, the header being one character shorter than the rule.
\<close>

lemma notebook_sentence_width: "max_field_length ''Sentence'' notebook_results = Inr 49"
  by (simp add: notebook_results_def max_field_length_def getitem_def max_py_def)

lemma notebook_sentiment_width: "max_field_length ''Sentiment'' notebook_results = Inr 8"
  by (simp add: notebook_results_def max_field_length_def getitem_def max_py_def)

lemma display_results_notebook_run:
  "display_results notebook_results [] =
    (Inr (),
     [''Sentence                                           Sentiment'',
      ''-------------------------------------------------------------'',
      ''the movie was a complete waste of time.            negative'',
      ''the plot was predictable and boring.               negative'',
      ''i absolutely loved this movie, it was fantastic!   positive'',
      ''an excellent movie that i would highly recommend.  positive''])"
proof -
  have "display_results notebook_results [] =
      print_rows 49 8 notebook_results [header_line 49 8, separator_line 49 8]"
    by (simp add: display_results_def notebook_sentence_width notebook_sentiment_width
        print_line_def)
  moreover have "header_line 49 8 =
      ''Sentence                                           Sentiment''"
    by (simp add: header_line_def format_row_def ljust_def eval_nat_numeral)
  moreover have "separator_line 49 8 =
      ''-------------------------------------------------------------''"
    by (simp add: separator_line_def eval_nat_numeral)
  ultimately show ?thesis
    by (simp add: notebook_results_def getitem_def format_row_def ljust_def print_line_def
        eval_nat_numeral)
qed

text \<open>
  Claim C2 as stated does not hold. It says that each column of the printed header occupies
  exactly the greatest field length of the records. For the single record with sentence
  \<open>x\<close> and sentiment \<open>positive\<close> these lengths are 1 and 8, while the header is
  \<open>Sentence\<close>, two spaces, \<open>Sentiment\<close>: 8 and 9 characters, since the format width
  only pads. No split of the header line around the two spaces has columns of 1 and 8.
\<close>

theorem header_width_counterexample:
  "\<not> (\<exists>c1 c2 rest.
        display_results [mk_result ''x'' ''positive''] [] = (Inr (), (c1 @ ''  '' @ c2) # rest) \<and>
        length c1 = spec_max_length ''Sentence'' [mk_result ''x'' ''positive''] \<and>
        length c2 = spec_max_length ''Sentiment'' [mk_result ''x'' ''positive''])"
proof
  assume "\<exists>c1 c2 rest.
        display_results [mk_result ''x'' ''positive''] [] = (Inr (), (c1 @ ''  '' @ c2) # rest) \<and>
        length c1 = spec_max_length ''Sentence'' [mk_result ''x'' ''positive''] \<and>
        length c2 = spec_max_length ''Sentiment'' [mk_result ''x'' ''positive'']"
  then obtain c1 c2 rest where
    d: "display_results [mk_result ''x'' ''positive''] [] = (Inr (), (c1 @ ''  '' @ c2) # rest)"
    and l1: "length c1 = 1" and l2: "length c2 = 8"
    by auto
  from d have "c1 @ ''  '' @ c2 = ''Sentence  Sentiment''"
    by (simp add: display_results_x_positive)
  then have "length (c1 @ ''  '' @ c2) = length ''Sentence  Sentiment''"
    by (rule arg_cong)
  with l1 l2 show False by simp
qed

text \<open>
  Claim C2, amended. For a non-empty list of records with both fields, the width computed
  for each column is the greatest length of that field among the records, and the header
  line is the label \<open>Sentence\<close> left-justified to the first width, two spaces, and the
  label \<open>Sentiment\<close> left-justified to the second width. A header column therefore
  occupies the greater of its label's length (8 and 9) and the computed width: exactly the
  computed width as soon as that is no less than the label's length.
\<close>

theorem header_width:
  assumes "results \<noteq> []" and "list_all has_fields results"
  shows "max_field_length ''Sentence'' results = Inr (spec_max_length ''Sentence'' results) \<and>
         max_field_length ''Sentiment'' results = Inr (spec_max_length ''Sentiment'' results) \<and>
         (\<exists>c1 c2 rest.
            display_results results out = (Inr (), out @ (c1 @ ''  '' @ c2) # rest) \<and>
            c1 = ljust ''Sentence'' (spec_max_length ''Sentence'' results) \<and>
            c2 = ljust ''Sentiment'' (spec_max_length ''Sentiment'' results) \<and>
            length c1 = max 8 (spec_max_length ''Sentence'' results) \<and>
            length c2 = max 9 (spec_max_length ''Sentiment'' results))"
proof -
  from assms(2) have s: "\<forall>r\<in>set results. r ''Sentence'' \<noteq> None"
    and t: "\<forall>r\<in>set results. r ''Sentiment'' \<noteq> None"
    by (simp_all add: list_all_iff has_fields_def)
  have w1: "max_field_length ''Sentence'' results = Inr (spec_max_length ''Sentence'' results)"
    by (simp only: spec_max_length_def max_field_length_present [OF assms(1) s])
  have w2: "max_field_length ''Sentiment'' results = Inr (spec_max_length ''Sentiment'' results)"
    by (simp only: spec_max_length_def max_field_length_present [OF assms(1) t])
  have "display_results results out =
      (Inr (), out @ (ljust ''Sentence'' (spec_max_length ''Sentence'' results) @ ''  '' @
                      ljust ''Sentiment'' (spec_max_length ''Sentiment'' results)) #
         separator_line (spec_max_length ''Sentence'' results) (spec_max_length ''Sentiment'' results) #
         map (\<lambda>r. format_row (the (r ''Sentence'')) (the (r ''Sentiment''))
                   (spec_max_length ''Sentence'' results) (spec_max_length ''Sentiment'' results))
          results)"
    by (simp only: display_results_output [OF assms] header_line_def format_row_def)
  moreover have "length (ljust ''Sentence'' (spec_max_length ''Sentence'' results)) =
      max 8 (spec_max_length ''Sentence'' results)"
    by (simp add: ljust_length)
  moreover have "length (ljust ''Sentiment'' (spec_max_length ''Sentiment'' results)) =
      max 9 (spec_max_length ''Sentiment'' results)"
    by (simp add: ljust_length)
  ultimately show ?thesis using w1 w2 by blast
qed

text \<open>
  Claim C2, amended, on one record whose sentence has ten characters.
\<close>

theorem header_width_witness:
  "[mk_result ''great film'' ''positive''] \<noteq> [] \<and>
   list_all has_fields [mk_result ''great film'' ''positive''] \<and>
   max_field_length ''Sentence'' [mk_result ''great film'' ''positive''] = Inr 10 \<and>
   max_field_length ''Sentiment'' [mk_result ''great film'' ''positive''] = Inr 8"
  using header_width [of "[mk_result ''great film'' ''positive'']" "[]"] by simp

text \<open>
  Claim C3. For a non-empty list of records with both fields, the second line printed is
  the rule: it consists of dashes only, and its length is the greatest sentence length plus
  the greatest sentiment length plus 4. The header comes before it and one row per record
  after it.
\<close>

theorem separator_length:
  assumes "results \<noteq> []" and "list_all has_fields results"
  shows "\<exists>hdr sep rows.
           display_results results out = (Inr (), out @ hdr # sep # rows) \<and>
           length rows = length results \<and>
           (\<forall>c\<in>set sep. c = CHR ''-'') \<and>
           length sep =
             spec_max_length ''Sentence'' results + spec_max_length ''Sentiment'' results + 4"
proof -
  let ?sep = "separator_line (spec_max_length ''Sentence'' results)
                (spec_max_length ''Sentiment'' results)"
  have "\<forall>c\<in>set ?sep. c = CHR ''-''"
    by (simp add: separator_line_def)
  moreover have "length ?sep =
      spec_max_length ''Sentence'' results + spec_max_length ''Sentiment'' results + 4"
    by (simp add: separator_line_def)
  moreover have "length (map (\<lambda>r. format_row (the (r ''Sentence'')) (the (r ''Sentiment''))
                   (spec_max_length ''Sentence'' results) (spec_max_length ''Sentiment'' results))
          results) = length results"
    by simp
  ultimately show ?thesis
    using display_results_output [OF assms, of out] by blast
qed

text \<open>
  Claim C3 on the single record \<open>x\<close>, \<open>positive\<close>: a rule of 1 + 8 + 4 dashes.
\<close>

theorem separator_length_witness:
  "[mk_result ''x'' ''positive''] \<noteq> [] \<and> list_all has_fields [mk_result ''x'' ''positive''] \<and>
   (\<exists>hdr sep rows.
      display_results [mk_result ''x'' ''positive''] [] = (Inr (), hdr # sep # rows) \<and>
      length rows = 1 \<and> (\<forall>c\<in>set sep. c = CHR ''-'') \<and> length sep = 13)"
proof -
  have ne: "[mk_result ''x'' ''positive''] \<noteq> []" by simp
  have wf: "list_all has_fields [mk_result ''x'' ''positive'']" by simp
  from separator_length [OF ne wf, of "[]"] ne wf show ?thesis by simp
qed

text \<open>
  Claim C5. For a non-empty list of records with both fields, the row printed for the
  \<open>i\<close>-th record is its sentence followed by spaces, two spaces, and its sentiment
  followed by spaces; the number of spaces added is the column width less the field's
  length, so that each of the two columns has exactly the computed width, which is the
  greatest length of the field among all records.
\<close>

theorem rows_padded:
  assumes "results \<noteq> []" and "list_all has_fields results"
  shows "\<exists>hdr sep rows.
           display_results results out = (Inr (), out @ hdr # sep # rows) \<and>
           length rows = length results \<and>
           (\<forall>i<length results.
              rows ! i =
                (the ((results ! i) ''Sentence'') @
                   replicate (spec_max_length ''Sentence'' results -
                              length (the ((results ! i) ''Sentence''))) (CHR '' '')) @
                ''  '' @
                (the ((results ! i) ''Sentiment'') @
                   replicate (spec_max_length ''Sentiment'' results -
                              length (the ((results ! i) ''Sentiment''))) (CHR '' '')) \<and>
              length (the ((results ! i) ''Sentence'') @
                   replicate (spec_max_length ''Sentence'' results -
                              length (the ((results ! i) ''Sentence''))) (CHR '' ''))
                = spec_max_length ''Sentence'' results \<and>
              length (the ((results ! i) ''Sentiment'') @
                   replicate (spec_max_length ''Sentiment'' results -
                              length (the ((results ! i) ''Sentiment''))) (CHR '' ''))
                = spec_max_length ''Sentiment'' results)"
proof -
  let ?w1 = "spec_max_length ''Sentence'' results"
  let ?w2 = "spec_max_length ''Sentiment'' results"
  let ?rows = "map (\<lambda>r. format_row (the (r ''Sentence'')) (the (r ''Sentiment'')) ?w1 ?w2) results"
  have row: "?rows ! i =
      (the ((results ! i) ''Sentence'') @
         replicate (?w1 - length (the ((results ! i) ''Sentence''))) (CHR '' '')) @
      ''  '' @
      (the ((results ! i) ''Sentiment'') @
         replicate (?w2 - length (the ((results ! i) ''Sentiment''))) (CHR '' '')) \<and>
      length (the ((results ! i) ''Sentence'') @
         replicate (?w1 - length (the ((results ! i) ''Sentence''))) (CHR '' '')) = ?w1 \<and>
      length (the ((results ! i) ''Sentiment'') @
         replicate (?w2 - length (the ((results ! i) ''Sentiment''))) (CHR '' '')) = ?w2"
    if i: "i < length results" for i
  proof -
    from i have mem: "results ! i \<in> set results" by simp
    have le1: "length (the ((results ! i) ''Sentence'')) \<le> ?w1"
      using mem by (rule spec_max_length_ge)
    have le2: "length (the ((results ! i) ''Sentiment'')) \<le> ?w2"
      using mem by (rule spec_max_length_ge)
    have "?rows ! i = ljust (the ((results ! i) ''Sentence'')) ?w1 @ ''  '' @
        ljust (the ((results ! i) ''Sentiment'')) ?w2"
      using i by (simp add: format_row_def)
    with le1 le2 show ?thesis
      by (simp add: ljust_fits)
  qed
  have "length ?rows = length results" by simp
  with row show ?thesis
    using display_results_output [OF assms, of out] by blast
qed

text \<open>
  Claim C5 on two records with sentences of two and four characters.
\<close>

theorem rows_padded_witness:
  "[mk_result ''ab'' ''positive'', mk_result ''abcd'' ''negative''] \<noteq> [] \<and>
   list_all has_fields [mk_result ''ab'' ''positive'', mk_result ''abcd'' ''negative''] \<and>
   (\<exists>hdr sep rows.
      display_results [mk_result ''ab'' ''positive'', mk_result ''abcd'' ''negative''] [] =
        (Inr (), hdr # sep # rows) \<and>
      length rows = 2 \<and> rows ! 0 = ''ab    positive'' \<and> rows ! 1 = ''abcd  negative'')"
proof -
  let ?rs = "[mk_result ''ab'' ''positive'', mk_result ''abcd'' ''negative'']"
  have ne: "?rs \<noteq> []" by simp
  have wf: "list_all has_fields ?rs" by simp
  have w1: "spec_max_length ''Sentence'' ?rs = 4"
    by (simp add: spec_max_length_def)
  have w2: "spec_max_length ''Sentiment'' ?rs = 8"
    by (simp add: spec_max_length_def)
  from rows_padded [OF ne wf, of "[]"] obtain hdr sep rows where
    d: "display_results ?rs [] = (Inr (), [] @ hdr # sep # rows)" and
    len: "length rows = length ?rs" and
    r: "\<forall>i<length ?rs.
              rows ! i =
                (the ((?rs ! i) ''Sentence'') @
                   replicate (spec_max_length ''Sentence'' ?rs -
                              length (the ((?rs ! i) ''Sentence''))) (CHR '' '')) @
                ''  '' @
                (the ((?rs ! i) ''Sentiment'') @
                   replicate (spec_max_length ''Sentiment'' ?rs -
                              length (the ((?rs ! i) ''Sentiment''))) (CHR '' '')) \<and>
              length (the ((?rs ! i) ''Sentence'') @
                   replicate (spec_max_length ''Sentence'' ?rs -
                              length (the ((?rs ! i) ''Sentence''))) (CHR '' ''))
                = spec_max_length ''Sentence'' ?rs \<and>
              length (the ((?rs ! i) ''Sentiment'') @
                   replicate (spec_max_length ''Sentiment'' ?rs -
                              length (the ((?rs ! i) ''Sentiment''))) (CHR '' ''))
                = spec_max_length ''Sentiment'' ?rs"
    by (elim exE conjE)
  from r [rule_format, of 0] have r0: "rows ! 0 = ''ab    positive''"
    by (simp add: w1 w2 eval_nat_numeral)
  from r [rule_format, of 1] have r1: "rows ! 1 = ''abcd  negative''"
    by (simp add: w1 w2 eval_nat_numeral)
  from d len r0 r1 ne wf show ?thesis by simp
qed

text \<open>
  Claim C10. For a non-empty list of records with both fields, nothing is cut: the header
  line is the whole label \<open>Sentence\<close>, some spaces (possibly none), two spaces, the whole
  label \<open>Sentiment\<close> and some spaces, whatever the computed widths are; and the row of
  each record is its whole sentence, some spaces, two spaces, its whole sentiment and some
  spaces.
\<close>

theorem no_truncation:
  assumes "results \<noteq> []" and "list_all has_fields results"
  shows "\<exists>hdr sep rows.
           display_results results out = (Inr (), out @ hdr # sep # rows) \<and>
           length rows = length results \<and>
           (\<exists>m n. hdr = (''Sentence'' @ replicate m (CHR '' '')) @ ''  '' @
                         (''Sentiment'' @ replicate n (CHR '' ''))) \<and>
           (\<forall>i<length results. \<exists>m n.
              rows ! i = (the ((results ! i) ''Sentence'') @ replicate m (CHR '' '')) @ ''  '' @
                         (the ((results ! i) ''Sentiment'') @ replicate n (CHR '' '')))"
proof -
  let ?w1 = "spec_max_length ''Sentence'' results"
  let ?w2 = "spec_max_length ''Sentiment'' results"
  let ?rows = "map (\<lambda>r. format_row (the (r ''Sentence'')) (the (r ''Sentiment'')) ?w1 ?w2) results"
  have fr: "\<exists>m n. format_row a b w1 w2 =
      (a @ replicate m (CHR '' '')) @ ''  '' @ (b @ replicate n (CHR '' ''))" for a b w1 w2
  proof -
    obtain m where m: "ljust a w1 = a @ replicate m (CHR '' '')"
      using ljust_pad by blast
    obtain n where n: "ljust b w2 = b @ replicate n (CHR '' '')"
      using ljust_pad by blast
    have "format_row a b w1 w2 = (a @ replicate m (CHR '' '')) @ ''  '' @ (b @ replicate n (CHR '' ''))"
      by (simp only: format_row_def m n)
    then show ?thesis by blast
  qed
  have hdr: "\<exists>m n. header_line ?w1 ?w2 = (''Sentence'' @ replicate m (CHR '' '')) @ ''  '' @
                         (''Sentiment'' @ replicate n (CHR '' ''))"
    unfolding header_line_def by (rule fr)
  have row: "\<forall>i<length results. \<exists>m n.
      ?rows ! i = (the ((results ! i) ''Sentence'') @ replicate m (CHR '' '')) @ ''  '' @
                  (the ((results ! i) ''Sentiment'') @ replicate n (CHR '' ''))"
    using fr by simp
  have "length ?rows = length results" by simp
  with hdr row show ?thesis
    using display_results_output [OF assms, of out] by blast
qed

text \<open>
  Claim C10 on the single record \<open>x\<close>, \<open>positive\<close>, where both labels are longer than
  the computed widths 1 and 8.
\<close>

theorem no_truncation_witness:
  "[mk_result ''x'' ''positive''] \<noteq> [] \<and> list_all has_fields [mk_result ''x'' ''positive''] \<and>
   (\<exists>hdr sep rows.
      display_results [mk_result ''x'' ''positive''] [] = (Inr (), hdr # sep # rows) \<and>
      length rows = 1 \<and>
      (\<exists>m n. hdr = (''Sentence'' @ replicate m (CHR '' '')) @ ''  '' @
                    (''Sentiment'' @ replicate n (CHR '' ''))) \<and>
      (\<exists>m n. rows ! 0 = (''x'' @ replicate m (CHR '' '')) @ ''  '' @
                    (''positive'' @ replicate n (CHR '' ''))))"
proof -
  have ne: "[mk_result ''x'' ''positive''] \<noteq> []" by simp
  have wf: "list_all has_fields [mk_result ''x'' ''positive'']" by simp
  from no_truncation [OF ne wf, of "[]"] ne wf show ?thesis by simp
qed

text \<open>
  Claim C4 as stated does not hold. It gives the printed row of the single record
  \<open>x\<close>, \<open>positive\<close> as \<open>x positive\<close>, with one space between the columns. The
  f-string puts two spaces between the columns, so the row, which is the third line printed,
  is another string.
\<close>

theorem single_record_row_counterexample:
  "snd (display_results [mk_result ''x'' ''positive''] []) ! 2 \<noteq> ''x positive''"
  by (simp add: display_results_x_positive)

text \<open>
  Claim C4, amended. For the single record with sentence \<open>x\<close> and sentiment
  \<open>positive\<close> the computed widths are 1 and 8, and three lines are printed: the header
  \<open>Sentence\<close>, two spaces, \<open>Sentiment\<close>; a rule of 13 dashes; and the row \<open>x\<close>, two
  spaces, \<open>positive\<close>, both fields filling their widths with no space added.
\<close>

theorem single_record_table:
  "max_field_length ''Sentence'' [mk_result ''x'' ''positive''] = Inr 1 \<and>
   max_field_length ''Sentiment'' [mk_result ''x'' ''positive''] = Inr 8 \<and>
   display_results [mk_result ''x'' ''positive''] out =
     (Inr (), out @ [''Sentence  Sentiment'', ''-------------'', ''x  positive''])"
proof -
  have "max_field_length ''Sentence'' [mk_result ''x'' ''positive''] = Inr 1"
    by (simp add: max_field_length_def getitem_def max_py_def)
  moreover have "max_field_length ''Sentiment'' [mk_result ''x'' ''positive''] = Inr 8"
    by (simp add: max_field_length_def getitem_def max_py_def)
  ultimately show ?thesis
    by (simp only: display_results_x_positive simp_thms)
qed

text \<open>
  Claim C9. On the empty list the first \<^verbatim>\<open>max\<close> raises \<^verbatim>\<open>ValueError\<close>, and the
  console is as it was: nothing has been printed.
\<close>

theorem display_results_empty: "display_results [] out = (Inl ValueError, out)"
  by (simp add: display_results_def max_field_length_def max_py_def)

text \<open>
  A frame property of the embedding: the lines already on the console are kept, and neither
  the outcome nor the lines appended depend on them. It says nothing on the determinism of
  the Python function itself, which the embedding has by being a function of the records
  and the console.
\<close>

lemma display_results_console_frame:
  "fst (display_results results out1) = fst (display_results results out2) \<and>
   (\<exists>printed. snd (display_results results out1) = out1 @ printed \<and>
               snd (display_results results out2) = out2 @ printed)"
proof (cases "max_field_length ''Sentence'' results")
  case (Inl e)
  then show ?thesis by (simp add: display_results_def)
next
  case w1: (Inr w1)
  show ?thesis
  proof (cases "max_field_length ''Sentiment'' results")
    case (Inl e)
    with w1 show ?thesis by (simp add: display_results_def)
  next
    case w2: (Inr w2)
    let ?two = "[header_line w1 w2, separator_line w1 w2]"
    have d: "display_results results out =
        (fst (print_rows w1 w2 results []), out @ ?two @ snd (print_rows w1 w2 results []))" for out
    proof -
      have "display_results results out = print_rows w1 w2 results (out @ ?two)"
        by (simp add: display_results_def w1 w2 print_line_def)
      also have "\<dots> = (fst (print_rows w1 w2 results []),
          (out @ ?two) @ snd (print_rows w1 w2 results []))"
        by (rule print_rows_append)
      finally show ?thesis by simp
    qed
    have "fst (display_results results out1) = fst (display_results results out2)"
      by (simp add: d)
    moreover have "snd (display_results results out1) =
        out1 @ (?two @ snd (print_rows w1 w2 results []))"
      by (simp add: d)
    moreover have "snd (display_results results out2) =
        out2 @ (?two @ snd (print_rows w1 w2 results []))"
      by (simp add: d)
    ultimately show ?thesis by blast
  qed
qed

section \<open>The label: softmax, argmax and exceptions\<close>

lemma argmax_loop_map:
  assumes "\<And>x y. f x < f y \<longleftrightarrow> x < (y::real)"
  shows "argmax_loop (f best) besti i (map f xs) = argmax_loop best besti i xs"
  by (induction xs arbitrary: best besti i) (simp_all add: assms)

lemma sum_list_exp_nonneg: "0 \<le> sum_list (map exp (v::real list))"
  by (induction v) simp_all

lemma sum_list_exp_pos: "v \<noteq> [] \<Longrightarrow> 0 < sum_list (map exp (v::real list))"
proof (cases v)
  case Nil
  assume "v \<noteq> []"
  with Nil show ?thesis by simp
next
  case (Cons x xs)
  have "0 < exp x" by simp
  with sum_list_exp_nonneg [of xs] have "0 < exp x + sum_list (map exp xs)"
    by linarith
  with Cons show ?thesis by simp
qed

lemma argmax_row_softmax_row: "argmax_row (softmax_row v) = argmax_row v"
proof (cases v)
  case Nil
  then show ?thesis by (simp add: softmax_row_def)
next
  case (Cons x xs)
  define S where "S = sum_list (map exp v)"
  have S: "0 < S" unfolding S_def using Cons by (intro sum_list_exp_pos) simp
  define f where "f = (\<lambda>x::real. exp x / S)"
  have mono: "\<And>a b. f a < f b \<longleftrightarrow> a < b"
    using S by (simp add: f_def divide_less_cancel)
  have "softmax_row v = f x # map f xs"
    by (simp add: softmax_row_def f_def S_def Cons)
  then have "argmax_row (softmax_row v) = Inr (argmax_loop (f x) 0 1 (map f xs))"
    by (simp add: argmax_row_def)
  also have "\<dots> = Inr (argmax_loop x 0 1 xs)"
    by (simp only: argmax_loop_map [of f, OF mono])
  also have "\<dots> = argmax_row v"
    by (simp add: argmax_row_def Cons)
  finally show ?thesis .
qed

lemma argmax_axis1_softmax: "argmax_axis1 (softmax p) = argmax_axis1 p"
  by (induction p) (simp_all add: softmax_def argmax_row_softmax_row split: sum.splits)

lemma argmax_axis1_Inr:
  "argmax_axis1 p = Inr js \<longleftrightarrow> length js = length p \<and> (\<forall>i<length p. argmax_row (p ! i) = Inr (js ! i))"
proof (induction p arbitrary: js)
  case Nil
  show ?case by auto
next
  case (Cons r rs)
  show ?case
  proof (cases js)
    case Nil
    then show ?thesis by (auto split: sum.splits)
  next
    case (Cons j js')
    then show ?thesis
      using Cons.IH [of js'] by (auto split: sum.splits simp: less_Suc_eq_0_disj)
  qed
qed

lemma argmax_row_two: "argmax_row [a, b] = Inr (if a < b then 1 else 0)"
  by (simp add: argmax_row_def)

text \<open>
  With one row of two logits, the label is \<open>positive\<close> exactly when the second logit is
  strictly greater than the first; a tie gives \<open>negative\<close>.
\<close>

lemma get_sentiment_two:
  "predict [text] = Inr [[a, b]] \<Longrightarrow>
   get_sentiment predict text = Inr (if a < b then ''positive'' else ''negative'')"
  by (simp add: get_sentiment_def argmax_axis1_softmax argmax_row_two index0_def sentiment_label_def)

text \<open>
  Claim C1. \<open>get_sentiment\<close> returns a label exactly when \<open>predict\<close> returns an array
  with at least one row and \<open>argmax\<close> succeeds on every row of its softmax; the label is
  then \<open>positive\<close> if the argmax index of row 0 of the softmax is 1, and \<open>negative\<close>
  otherwise.
\<close>

theorem get_sentiment_label:
  "get_sentiment predict text = Inr label \<longleftrightarrow>
     (\<exists>predictions i.
        predict [text] = Inr predictions \<and> predictions \<noteq> [] \<and>
        (\<forall>k<length predictions. \<exists>j. argmax_row (softmax predictions ! k) = Inr j) \<and>
        argmax_row (softmax predictions ! 0) = Inr i \<and>
        label = (if i = 1 then ''positive'' else ''negative''))"
proof (cases "predict [text]")
  case (Inl e)
  then show ?thesis by (simp add: get_sentiment_def)
next
  case p: (Inr predictions)
  have len: "length (softmax predictions) = length predictions"
    by (simp add: softmax_def)
  show ?thesis
  proof (cases "argmax_axis1 (softmax predictions)")
    case (Inl e)
    then have "\<not> (\<forall>k<length predictions. \<exists>j. argmax_row (softmax predictions ! k) = Inr j)"
    proof -
      have "(\<forall>k<length predictions. \<exists>j. argmax_row (softmax predictions ! k) = Inr j) \<Longrightarrow> False"
      proof -
        assume a: "\<forall>k<length predictions. \<exists>j. argmax_row (softmax predictions ! k) = Inr j"
        define js where "js = map (\<lambda>r. projr (argmax_row r)) (softmax predictions)"
        have "argmax_axis1 (softmax predictions) = Inr js"
          unfolding argmax_axis1_Inr using a len by (auto simp: js_def)
        with Inl show False by simp
      qed
      then show ?thesis by blast
    qed
    with p Inl show ?thesis by (auto simp: get_sentiment_def)
  next
    case js: (Inr js)
    then have l: "length js = length predictions"
      and r: "\<forall>k<length predictions. argmax_row (softmax predictions ! k) = Inr (js ! k)"
      using len by (simp_all add: argmax_axis1_Inr)
    show ?thesis
    proof (cases js)
      case Nil
      with l p js show ?thesis by (simp add: get_sentiment_def index0_def)
    next
      case (Cons i rest)
      with l have ne: "predictions \<noteq> []" by auto
      with r Cons have r0: "argmax_row (softmax predictions ! 0) = Inr i" by fastforce
      from p js Cons have "get_sentiment predict text = Inr (sentiment_label i)"
        by (simp add: get_sentiment_def index0_def)
      with p ne r r0 show ?thesis
        by (auto simp: sentiment_label_def)
    qed
  qed
qed

text \<open>
  Claim C1 on three arrays of one row: the second class greater, the first class greater,
  and a tie, where the first index wins.
\<close>

theorem get_sentiment_label_witness:
  "get_sentiment (\<lambda>texts. Inr [[0, 1]]) ''a fine film'' = Inr ''positive'' \<and>
   get_sentiment (\<lambda>texts. Inr [[1, 0]]) ''a fine film'' = Inr ''negative'' \<and>
   get_sentiment (\<lambda>texts. Inr [[1, 1]]) ''a fine film'' = Inr ''negative''"
proof -
  have a: "argmax_row (softmax [[0, 1]] ! 0) = Inr 1"
    by (simp add: softmax_def argmax_row_softmax_row argmax_row_two)
  have b: "argmax_row (softmax [[1, 0]] ! 0) = Inr 0"
    by (simp add: softmax_def argmax_row_softmax_row argmax_row_two)
  have c: "argmax_row (softmax [[1, 1]] ! 0) = Inr 0"
    by (simp add: softmax_def argmax_row_softmax_row argmax_row_two)
  have "get_sentiment (\<lambda>texts. Inr [[0, 1]]) ''a fine film'' = Inr ''positive''"
    unfolding get_sentiment_label using a by simp
  moreover have "get_sentiment (\<lambda>texts. Inr [[1, 0]]) ''a fine film'' = Inr ''negative''"
    unfolding get_sentiment_label using b by simp
  moreover have "get_sentiment (\<lambda>texts. Inr [[1, 1]]) ''a fine film'' = Inr ''negative''"
    unfolding get_sentiment_label using c by simp
  ultimately show ?thesis by blast
qed

text \<open>
  Claim C6. Over the reals, softmax does not change the argmax: of one row, of every row of
  an array, and so the result of \<open>get_sentiment\<close> is the one computed from the argmax of
  the logits themselves, exceptions included.
\<close>

theorem softmax_preserves_argmax:
  "argmax_row (softmax_row v) = argmax_row v \<and>
   argmax_axis1 (softmax predictions) = argmax_axis1 predictions \<and>
   get_sentiment predict text =
     (case predict [text] of
        Inl e \<Rightarrow> Inl e
      | Inr logits \<Rightarrow>
         (case argmax_axis1 logits of
            Inl e \<Rightarrow> Inl e
          | Inr js \<Rightarrow>
             (case index0 js of
                Inl e \<Rightarrow> Inl e
              | Inr sentiment \<Rightarrow> Inr (sentiment_label sentiment))))"
  by (simp add: argmax_row_softmax_row argmax_axis1_softmax get_sentiment_def split: sum.splits)

text \<open>
  Claim C7. \<open>get_sentiment\<close> raises \<open>e\<close> exactly when \<open>predict\<close> raises \<open>e\<close>, or
  \<open>argmax\<close> raises \<open>e\<close> on the softmax of the predictions, or the subscript
  \<^verbatim>\<open>[0]\<close> raises \<open>e\<close>: the exception of the failing call is the outcome, unchanged,
  and no label is returned then, the outcome being \<open>Inl e\<close>.
\<close>

theorem get_sentiment_propagates:
  "get_sentiment predict text = Inl e \<longleftrightarrow>
     predict [text] = Inl e \<or>
     (\<exists>predictions. predict [text] = Inr predictions \<and>
        (argmax_axis1 (softmax predictions) = Inl e \<or>
         (\<exists>js. argmax_axis1 (softmax predictions) = Inr js \<and> index0 js = Inl e)))"
  by (auto simp: get_sentiment_def split: sum.splits)

text \<open>
  Claim C7 on a \<open>predict\<close> that raises, on one that returns a row without columns, and on
  one that returns no row.
\<close>

theorem get_sentiment_propagates_witness:
  "get_sentiment (\<lambda>texts. Inl (FrameworkError ''unsupported operation'')) ''a fine film'' =
     Inl (FrameworkError ''unsupported operation'') \<and>
   get_sentiment (\<lambda>texts. Inr [[]]) ''a fine film'' = Inl ValueError \<and>
   get_sentiment (\<lambda>texts. Inr []) ''a fine film'' = Inl IndexError"
proof -
  have "get_sentiment (\<lambda>texts. Inl (FrameworkError ''unsupported operation'')) ''a fine film'' =
     Inl (FrameworkError ''unsupported operation'')"
    unfolding get_sentiment_propagates by simp
  moreover have "get_sentiment (\<lambda>texts. Inr [[]]) ''a fine film'' = Inl ValueError"
    unfolding get_sentiment_propagates by (simp add: softmax_def softmax_row_def argmax_row_def)
  moreover have "get_sentiment (\<lambda>texts. Inr []) ''a fine film'' = Inl IndexError"
    unfolding get_sentiment_propagates by (simp add: softmax_def index0_def)
  ultimately show ?thesis by blast
qed

end
